theory Spec2Isabelle
  imports Complex_Main "HOL-Library.FSet"
begin

section \<open>JavaScript values\<close>

text \<open>
  The public method \<open>analisaRecintos\<close> receives arbitrary JavaScript values, and
  \<open>FabricaLoteAnimais.geraLote\<close> inspects them with \<open>typeof\<close>. A number is
  modelled as a rational with exact arithmetic: on the integers the zoo handles (and on
  dyadic fractions such as 2.5) IEEE doubles compute exactly these values. NaN, the
  infinities and rounding are outside the model.

  A string is a list of 8-bit characters (Latin-1 code points), which is enough for
  the six species names and the three messages of the program.
\<close>

type_synonym number = rat

datatype jsvalue =
    JSUndefined
  | JSNull
  | JSBoolean bool
  | JSNumber number
  | JSBigInt int
  | JSString string
  | JSSymbol
  | JSObject
  | JSFunction

datatype jstype =
  TUndefined | TObject | TBoolean | TNumber | TBigint | TString | TSymbol | TFunction

fun typeof :: "jsvalue \<Rightarrow> jstype" where
  "typeof JSUndefined = TUndefined"
| "typeof JSNull = TObject"
| "typeof (JSBoolean b) = TBoolean"
| "typeof (JSNumber n) = TNumber"
| "typeof (JSBigInt i) = TBigint"
| "typeof (JSString s) = TString"
| "typeof JSSymbol = TSymbol"
| "typeof JSObject = TObject"
| "typeof JSFunction = TFunction"

text \<open>
  \<open>String.prototype.toUpperCase\<close> on the letters a to z. Of the other 8-bit
  characters JavaScript maps only the sharp s to unaccented capitals (to SS), and no
  species name contains SS, so the \<open>switch\<close> of \<open>geraLote\<close> takes the same branch
  under this function as under the real one.
\<close>

definition upperChar :: "char \<Rightarrow> char" where
  "upperChar c =
     (if 97 \<le> (of_char c :: nat) \<and> (of_char c :: nat) \<le> 122
      then char_of ((of_char c :: nat) - 32) else c)"

definition toUpperCase :: "string \<Rightarrow> string" where
  "toUpperCase s = map upperChar s"

text \<open>\<open>Array.prototype.includes\<close> on an array of strings.\<close>

definition array_includes :: "string list \<Rightarrow> string \<Rightarrow> bool" where
  "array_includes xs x = (x \<in> set xs)"

text \<open>
  \<open>Set.prototype.has\<close> on a set whose members are strings: a value that is not a
  string is never a member.
\<close>

fun has :: "string fset \<Rightarrow> jsvalue \<Rightarrow> bool" where
  "has S (JSString s) = (s |\<in>| S)"
| "has S v = False"

section \<open>Batches of animals (animais-zoo.js): data\<close>

text \<open>
  The class of a batch object decides which \<open>isCarnivoro\<close> and which
  \<open>estaConfortavel\<close> it runs. The two base classes are exported and can be
  instantiated, so they are classes of the model too.
\<close>

datatype classe =
    ClasseLoteAnimal
  | ClasseLoteAnimalCarnivoro
  | ClasseLeao
  | ClasseLeopardo
  | ClasseCrocodilo
  | ClasseMacaco
  | ClasseGazela
  | ClasseHipopotamo

record LoteAnimal =
  classe :: classe
  especie :: string
  tamanho :: number
  biomas :: "string list"
  qtdeLote :: number

definition Leao :: "number \<Rightarrow> LoteAnimal" where
  "Leao q = \<lparr>classe = ClasseLeao, especie = ''LEAO'', tamanho = 3,
              biomas = [''savana''], qtdeLote = q\<rparr>"

definition Leopardo :: "number \<Rightarrow> LoteAnimal" where
  "Leopardo q = \<lparr>classe = ClasseLeopardo, especie = ''LEOPARDO'', tamanho = 2,
                  biomas = [''savana''], qtdeLote = q\<rparr>"

definition Crocodilo :: "number \<Rightarrow> LoteAnimal" where
  "Crocodilo q = \<lparr>classe = ClasseCrocodilo, especie = ''CROCODILO'', tamanho = 3,
                   biomas = [''rio''], qtdeLote = q\<rparr>"

definition Macaco :: "number \<Rightarrow> LoteAnimal" where
  "Macaco q = \<lparr>classe = ClasseMacaco, especie = ''MACACO'', tamanho = 1,
                biomas = [''savana'', ''floresta''], qtdeLote = q\<rparr>"

definition Gazela :: "number \<Rightarrow> LoteAnimal" where
  "Gazela q = \<lparr>classe = ClasseGazela, especie = ''GAZELA'', tamanho = 2,
                biomas = [''savana''], qtdeLote = q\<rparr>"

definition Hipopotamo :: "number \<Rightarrow> LoteAnimal" where
  "Hipopotamo q = \<lparr>classe = ClasseHipopotamo, especie = ''HIPOPOTAMO'', tamanho = 4,
                    biomas = [''savana'', ''rio''], qtdeLote = q\<rparr>"

text \<open>\<open>isCarnivoro\<close>: false in \<open>LoteAnimal\<close>, overridden in \<open>LoteAnimalCarnivoro\<close>.\<close>

fun isCarnivoro :: "LoteAnimal \<Rightarrow> bool" where
  "isCarnivoro lote =
     (case classe lote of
        ClasseLoteAnimalCarnivoro \<Rightarrow> True
      | ClasseLeao \<Rightarrow> True
      | ClasseLeopardo \<Rightarrow> True
      | ClasseCrocodilo \<Rightarrow> True
      | _ \<Rightarrow> False)"

text \<open>The loop of \<open>verificaBiomaAdequado\<close> over the batch's own habitats.\<close>

fun verificaBiomaLoop :: "string list \<Rightarrow> string list \<Rightarrow> bool" where
  "verificaBiomaLoop [] biomasRecinto = False"
| "verificaBiomaLoop (b # bs) biomasRecinto =
     (if array_includes biomasRecinto b then True else verificaBiomaLoop bs biomasRecinto)"

definition verificaBiomaAdequado :: "LoteAnimal \<Rightarrow> string list \<Rightarrow> bool" where
  "verificaBiomaAdequado lote biomasRecinto = verificaBiomaLoop (biomas lote) biomasRecinto"

definition verificaEspacoSuficente :: "LoteAnimal \<Rightarrow> number \<Rightarrow> bool" where
  "verificaEspacoSuficente lote espacoDisponivel =
     (espacoDisponivel \<ge> qtdeLote lote * tamanho lote)"

definition tamanhoLote :: "LoteAnimal \<Rightarrow> number" where
  "tamanhoLote lote = tamanho lote * qtdeLote lote"

definition toleraOutrasEspecies :: "string list \<Rightarrow> bool" where
  "toleraOutrasEspecies biomasRecinto =
     (array_includes biomasRecinto ''savana'' \<and> array_includes biomasRecinto ''rio'')"

section \<open>Enclosures (recintos-zoo.js)\<close>

text \<open>
  The fields of \<open>Recinto\<close>. The field \<open>id\<close> is \<open>ident\<close> here and the field
  \<open>biomas\<close> is \<open>biomasRecinto\<close>, the source's names being taken by a constant
  of HOL and by the field of the batch. \<open>listaEspecies\<close> is a \<open>Set\<close> of
  species names, of which the program reads the size and the membership only.
\<close>

record Recinto =
  ident :: number
  biomasRecinto :: "string list"
  tamanhoTotal :: number
  tamanhoOcupado :: number
  animaisExistentes :: "LoteAnimal list"
  listaEspecies :: "string fset"
  flagContemCarnivoros :: bool

definition temOutrasEspecies :: "Recinto \<Rightarrow> jsvalue \<Rightarrow> bool" where
  "temOutrasEspecies r e =
     (fcard (listaEspecies r) > 1 \<or>
      (fcard (listaEspecies r) = 1 \<and> \<not> has (listaEspecies r) e))"

definition getEspacoDisponivel :: "Recinto \<Rightarrow> jsvalue \<Rightarrow> number" where
  "getEspacoDisponivel r e =
     (let espacoRestante = tamanhoTotal r - tamanhoOcupado r
      in if temOutrasEspecies r e then espacoRestante - 1 else espacoRestante)"

subsection \<open>The comfort predicates of the batches\<close>

definition estaConfortavel_LoteAnimal :: "LoteAnimal \<Rightarrow> Recinto \<Rightarrow> bool" where
  "estaConfortavel_LoteAnimal lote recinto =
     (let espacoDisponivel = getEspacoDisponivel recinto (JSString (especie lote))
      in if verificaBiomaAdequado lote (biomasRecinto recinto) \<and>
            verificaEspacoSuficente lote espacoDisponivel
         then True else False)"

definition estaConfortavel_Macaco :: "LoteAnimal \<Rightarrow> Recinto \<Rightarrow> bool" where
  "estaConfortavel_Macaco lote recinto =
     (let espacoDisponivel = getEspacoDisponivel recinto (JSString (especie lote))
      in if verificaBiomaAdequado lote (biomasRecinto recinto) \<and>
            verificaEspacoSuficente lote espacoDisponivel
         then (if qtdeLote lote = 1 \<and> espacoDisponivel = tamanhoTotal recinto
               then False else True)
         else False)"

definition estaConfortavel_Hipopotamo :: "LoteAnimal \<Rightarrow> Recinto \<Rightarrow> bool" where
  "estaConfortavel_Hipopotamo lote recinto =
     (let espacoDisponivel = getEspacoDisponivel recinto (JSString (especie lote))
      in if verificaBiomaAdequado lote (biomasRecinto recinto) \<and>
            verificaEspacoSuficente lote espacoDisponivel
         then (if temOutrasEspecies recinto (JSString (especie lote))
               then toleraOutrasEspecies (biomasRecinto recinto) else True)
         else False)"

text \<open>Method dispatch on the class of the batch.\<close>

definition estaConfortavel :: "LoteAnimal \<Rightarrow> Recinto \<Rightarrow> bool" where
  "estaConfortavel lote recinto =
     (case classe lote of
        ClasseMacaco \<Rightarrow> estaConfortavel_Macaco lote recinto
      | ClasseHipopotamo \<Rightarrow> estaConfortavel_Hipopotamo lote recinto
      | _ \<Rightarrow> estaConfortavel_LoteAnimal lote recinto)"

subsection \<open>Admission\<close>

definition consegueAcomodarLote :: "Recinto \<Rightarrow> LoteAnimal \<Rightarrow> bool" where
  "consegueAcomodarLote r loteAnimais =
     (if \<not> estaConfortavel loteAnimais r then False
      else if has (listaEspecies r) (JSString ''HIPOPOTAMO'') \<and>
              especie loteAnimais \<noteq> ''HIPOPOTAMO'' \<and>
              (\<not> array_includes (biomasRecinto r) ''rio'' \<or>
               \<not> array_includes (biomasRecinto r) ''savana'')
      then False
      else if (flagContemCarnivoros r \<and>
               \<not> has (listaEspecies r) (JSString (especie loteAnimais))) \<or>
              (isCarnivoro loteAnimais \<and> \<not> flagContemCarnivoros r \<and>
               fcard (listaEspecies r) > 0)
      then False
      else True)"

definition adicionaLoteAnimais :: "Recinto \<Rightarrow> LoteAnimal \<Rightarrow> Recinto" where
  "adicionaLoteAnimais r loteAnimais =
     (if consegueAcomodarLote r loteAnimais
      then r\<lparr>flagContemCarnivoros :=
                (if isCarnivoro loteAnimais then True else flagContemCarnivoros r),
              listaEspecies := finsert (especie loteAnimais) (listaEspecies r),
              animaisExistentes := animaisExistentes r @ [loteAnimais],
              tamanhoOcupado := tamanhoOcupado r + tamanhoLote loteAnimais\<rparr>
      else r)"

text \<open>
  The constructor: the optional fourth argument is \<open>None\<close> when it is
  \<open>undefined\<close>; each pre-existing batch goes through \<open>adicionaLoteAnimais\<close>.
\<close>

definition novoRecinto ::
  "number \<Rightarrow> string list \<Rightarrow> number \<Rightarrow> LoteAnimal list option \<Rightarrow> Recinto" where
  "novoRecinto i bs tam animaisPreExistentes =
     (let vazio = \<lparr>ident = i, biomasRecinto = bs, tamanhoTotal = tam,
                   tamanhoOcupado = 0, animaisExistentes = [],
                   listaEspecies = {||}, flagContemCarnivoros = False\<rparr>
      in case animaisPreExistentes of
           None \<Rightarrow> vazio
         | Some lotes \<Rightarrow> foldl adicionaLoteAnimais vazio lotes)"

section \<open>The factory of batches (animais-zoo.js)\<close>

text \<open>The three messages; the accented letters are Latin-1 code points.\<close>

definition msgAnimalInvalido :: string where
  "msgAnimalInvalido = ''Animal inv'' @ [CHR 0xE1] @ ''lido''"

definition msgQuantidadeInvalida :: string where
  "msgQuantidadeInvalida = ''Quantidade inv'' @ [CHR 0xE1] @ ''lida''"

definition msgNaoHaRecintoViavel :: string where
  "msgNaoHaRecintoViavel =
     ''N'' @ [CHR 0xE3] @ ''o h'' @ [CHR 0xE1] @ '' recinto vi'' @ [CHR 0xE1] @ ''vel''"

text \<open>The \<open>switch\<close> of \<open>geraLote\<close> on the upper-cased name.\<close>

definition switchEspecie :: "string \<Rightarrow> number \<Rightarrow> string + LoteAnimal" where
  "switchEspecie nome qtde =
     (if nome = ''LEAO'' then Inr (Leao qtde)
      else if nome = ''LEOPARDO'' then Inr (Leopardo qtde)
      else if nome = ''CROCODILO'' then Inr (Crocodilo qtde)
      else if nome = ''MACACO'' then Inr (Macaco qtde)
      else if nome = ''GAZELA'' then Inr (Gazela qtde)
      else if nome = ''HIPOPOTAMO'' then Inr (Hipopotamo qtde)
      else Inl msgAnimalInvalido)"

text \<open>
  \<open>geraLote\<close> returns a batch or a message. The first test is
  \<open>typeof (especie) != "string"\<close>, the second
  \<open>typeof (qtdeLote) != "number" || qtdeLote <= 0\<close>; the comparison is only
  reached on a number.
\<close>

definition geraLote :: "jsvalue \<Rightarrow> jsvalue \<Rightarrow> string + LoteAnimal" where
  "geraLote especieArg qtdeArg =
     (case especieArg of
        JSString nome \<Rightarrow>
          (case qtdeArg of
             JSNumber qtde \<Rightarrow>
               (if qtde \<le> 0 then Inl msgQuantidadeInvalida
                else switchEspecie (toUpperCase nome) qtde)
           | _ \<Rightarrow> Inl msgQuantidadeInvalida)
      | _ \<Rightarrow> Inl msgAnimalInvalido)"

section \<open>The zoo (recintos-zoo.js)\<close>

record RecintosZoo =
  listaRecintos :: "Recinto list"

text \<open>
  An array literal of factory results is an array of batches when no result is a
  message; the constructor of \<open>Recinto\<close> would call a method on the string
  otherwise (a TypeError, \<open>None\<close> here).
\<close>

fun lotes :: "(string + LoteAnimal) list \<Rightarrow> LoteAnimal list option" where
  "lotes [] = Some []"
| "lotes (Inl erro # resto) = None"
| "lotes (Inr lote # resto) = map_option ((#) lote) (lotes resto)"

definition inicializaRecintos :: "RecintosZoo \<Rightarrow> RecintosZoo option" where
  "inicializaRecintos zoo =
     (case lotes [geraLote (JSString ''MACACO'') (JSNumber 3)] of
        None \<Rightarrow> None
      | Some macacos \<Rightarrow>
     (case lotes [geraLote (JSString ''GAZELA'') (JSNumber 1)] of
        None \<Rightarrow> None
      | Some gazelas \<Rightarrow>
     (case lotes [geraLote (JSString ''LEAO'') (JSNumber 1)] of
        None \<Rightarrow> None
      | Some leoes \<Rightarrow>
          Some (zoo\<lparr>listaRecintos := listaRecintos zoo @
            [novoRecinto 1 [''savana''] 10 (Some macacos),
             novoRecinto 2 [''floresta''] 5 None,
             novoRecinto 3 [''savana'', ''rio''] 7 (Some gazelas),
             novoRecinto 4 [''rio''] 8 None,
             novoRecinto 5 [''savana''] 9 (Some leoes)]\<rparr>))))"

definition novoRecintosZoo :: "RecintosZoo option" where
  "novoRecintosZoo = inicializaRecintos \<lparr>listaRecintos = []\<rparr>"

subsection \<open>The result of an analysis\<close>

text \<open>
  An element of the local array \<open>recintosViaveis\<close>, and the three values that
  \<open>geraSaidaEsperada\<close> writes into one line of text,
  \<open>Recinto <id> (espaco livre: <espacoLivre> total: <tamanhoTotal>)\<close>. The rendering
  of a number as text is not modelled: a line is kept as its three numbers.
\<close>

record opcao =
  recinto :: Recinto
  espacoLivre :: number

record linha =
  numeroRecinto :: number
  espacoLivreLinha :: number
  totalLinha :: number

datatype saida =
    Erro string
  | RecintosViaveis "linha list"

definition geraSaidaErro :: "string \<Rightarrow> saida" where
  "geraSaidaErro causa = Erro causa"

definition geraSaidaEsperada :: "opcao list \<Rightarrow> saida" where
  "geraSaidaEsperada listaRecintosViaveis =
     RecintosViaveis
       (map (\<lambda>op. \<lparr>numeroRecinto = ident (recinto op),
                    espacoLivreLinha = espacoLivre op,
                    totalLinha = tamanhoTotal (recinto op)\<rparr>)
            listaRecintosViaveis)"

text \<open>
  The \<open>forEach\<close> of \<open>analisaRecintos\<close>, with the state passed explicitly: it
  takes the enclosures still to visit and the array built so far, and returns the
  enclosures as the callback leaves them together with the final array. The callback
  reads the enclosure and pushes onto the local array. Note that
  \<open>getEspacoDisponivel\<close> receives the argument \<open>animal\<close> as the caller wrote it,
  not the species of the batch.
\<close>

fun forEachRecinto ::
  "LoteAnimal \<Rightarrow> jsvalue \<Rightarrow> Recinto list \<Rightarrow> opcao list \<Rightarrow> Recinto list \<times> opcao list" where
  "forEachRecinto novoLote animal [] recintosViaveis = ([], recintosViaveis)"
| "forEachRecinto novoLote animal (r # resto) recintosViaveis =
     (let viaveis' =
            (if consegueAcomodarLote r novoLote
             then (let espacoDisponivel = getEspacoDisponivel r animal
                   in recintosViaveis @
                        [\<lparr>recinto = r,
                          espacoLivre = espacoDisponivel - tamanhoLote novoLote\<rparr>])
             else recintosViaveis);
          (resto', final) = forEachRecinto novoLote animal resto viaveis'
      in (r # resto', final))"

text \<open>\<open>analisaRecintos\<close> returns its result and the zoo as the call leaves it.\<close>

definition analisaRecintos :: "RecintosZoo \<Rightarrow> jsvalue \<Rightarrow> jsvalue \<Rightarrow> saida \<times> RecintosZoo" where
  "analisaRecintos zoo animal quantidade =
     (case geraLote animal quantidade of
        Inl erro \<Rightarrow> (geraSaidaErro erro, zoo)
      | Inr novoLote \<Rightarrow>
          (let (lista, recintosViaveis) =
                 forEachRecinto novoLote animal (listaRecintos zoo) []
           in (if length recintosViaveis > 0
               then geraSaidaEsperada recintosViaveis
               else geraSaidaErro msgNaoHaRecintoViavel,
               zoo\<lparr>listaRecintos := lista\<rparr>)))"

text \<open>
  The use shown in the README: \<open>new RecintosZoo().analisaRecintos(animal, quantidade)\<close>,
  a fresh zoo and one analysis of it.
\<close>

definition analisaNovoZoo :: "jsvalue \<Rightarrow> jsvalue \<Rightarrow> saida option" where
  "analisaNovoZoo animal quantidade =
     (case novoRecintosZoo of
        None \<Rightarrow> None
      | Some zoo \<Rightarrow> Some (fst (analisaRecintos zoo animal quantidade)))"

section \<open>The free space as the specification words it\<close>

text \<open>
  Written from the specification, to be compared with \<open>temOutrasEspecies\<close> and
  \<open>getEspacoDisponivel\<close>: other species are present when the set of resident
  species has more than one member, or has exactly one member and that member is not
  the given species; the free space is the capacity minus the occupied space, minus
  one more unit exactly when other species are present.
\<close>

definition outrasEspeciesPresentes_spec :: "string fset \<Rightarrow> jsvalue \<Rightarrow> bool" where
  "outrasEspeciesPresentes_spec S e =
     (fcard S > 1 \<or> (\<exists>x |\<in>| S. S = {|x|} \<and> JSString x \<noteq> e))"

definition freeSpace_spec :: "Recinto \<Rightarrow> jsvalue \<Rightarrow> number" where
  "freeSpace_spec r e =
     tamanhoTotal r - tamanhoOcupado r -
       (if outrasEspeciesPresentes_spec (listaEspecies r) e then 1 else 0)"

section \<open>Evaluation lemmas\<close>


lemmas lote_defs = Leao_def Leopardo_def Crocodilo_def Macaco_def Gazela_def Hipopotamo_def

lemmas recinto_defs =
  consegueAcomodarLote_def estaConfortavel_def estaConfortavel_LoteAnimal_def
  estaConfortavel_Macaco_def estaConfortavel_Hipopotamo_def getEspacoDisponivel_def
  temOutrasEspecies_def verificaBiomaAdequado_def verificaEspacoSuficente_def
  toleraOutrasEspecies_def array_includes_def tamanhoLote_def
  fcard_fempty fcard_finsert_if

lemma toUpperCase_nomes:
  "toUpperCase ''MACACO'' = ''MACACO''"
  "toUpperCase ''GAZELA'' = ''GAZELA''"
  "toUpperCase ''LEAO'' = ''LEAO''"
  "toUpperCase ''HIPOPOTAMO'' = ''HIPOPOTAMO''"
  "toUpperCase ''CACHORRO'' = ''CACHORRO''"
  by (simp_all add: toUpperCase_def upperChar_def)

lemma geraLote_numero:
  "0 < q \<Longrightarrow> geraLote (JSString nome) (JSNumber q) = switchEspecie (toUpperCase nome) q"
  by (simp add: geraLote_def)

lemma geraLote_MACACO: "0 < q \<Longrightarrow> geraLote (JSString ''MACACO'') (JSNumber q) = Inr (Macaco q)"
  by (simp add: geraLote_numero toUpperCase_nomes switchEspecie_def)

lemma geraLote_GAZELA: "0 < q \<Longrightarrow> geraLote (JSString ''GAZELA'') (JSNumber q) = Inr (Gazela q)"
  by (simp add: geraLote_numero toUpperCase_nomes switchEspecie_def)

lemma geraLote_LEAO: "0 < q \<Longrightarrow> geraLote (JSString ''LEAO'') (JSNumber q) = Inr (Leao q)"
  by (simp add: geraLote_numero toUpperCase_nomes switchEspecie_def)

lemma mensagens_distintas:
  "msgAnimalInvalido \<noteq> msgQuantidadeInvalida"
  "msgNaoHaRecintoViavel \<noteq> msgQuantidadeInvalida"
  "msgNaoHaRecintoViavel \<noteq> msgAnimalInvalido"
  by (simp_all add: msgAnimalInvalido_def msgQuantidadeInvalida_def msgNaoHaRecintoViavel_def)

lemma novoRecintosZoo_eq:
  "novoRecintosZoo = Some \<lparr>listaRecintos =
     [\<lparr>ident = 1, biomasRecinto = [''savana''], tamanhoTotal = 10, tamanhoOcupado = 3,
        animaisExistentes = [Macaco 3], listaEspecies = {|''MACACO''|},
        flagContemCarnivoros = False\<rparr>,
      \<lparr>ident = 2, biomasRecinto = [''floresta''], tamanhoTotal = 5, tamanhoOcupado = 0,
        animaisExistentes = [], listaEspecies = {||}, flagContemCarnivoros = False\<rparr>,
      \<lparr>ident = 3, biomasRecinto = [''savana'', ''rio''], tamanhoTotal = 7,
        tamanhoOcupado = 2, animaisExistentes = [Gazela 1],
        listaEspecies = {|''GAZELA''|}, flagContemCarnivoros = False\<rparr>,
      \<lparr>ident = 4, biomasRecinto = [''rio''], tamanhoTotal = 8, tamanhoOcupado = 0,
        animaisExistentes = [], listaEspecies = {||}, flagContemCarnivoros = False\<rparr>,
      \<lparr>ident = 5, biomasRecinto = [''savana''], tamanhoTotal = 9, tamanhoOcupado = 3,
        animaisExistentes = [Leao 1], listaEspecies = {|''LEAO''|},
        flagContemCarnivoros = True\<rparr>]\<rparr>"
  by (simp add: novoRecintosZoo_def inicializaRecintos_def geraLote_MACACO geraLote_GAZELA
      geraLote_LEAO novoRecinto_def adicionaLoteAnimais_def recinto_defs lote_defs)

lemma novoRecinto_vazio:
  "novoRecinto i bs tam None =
     \<lparr>ident = i, biomasRecinto = bs, tamanhoTotal = tam, tamanhoOcupado = 0,
      animaisExistentes = [], listaEspecies = {||}, flagContemCarnivoros = False\<rparr>"
  by (simp add: novoRecinto_def)

subsection \<open>The loop of the analysis\<close>

lemma forEachRecinto_eq:
  "forEachRecinto novoLote animal rs acc =
     (rs, acc @ map (\<lambda>r. \<lparr>recinto = r,
                          espacoLivre = getEspacoDisponivel r animal - tamanhoLote novoLote\<rparr>)
                    (filter (\<lambda>r. consegueAcomodarLote r novoLote) rs))"
  by (induction rs arbitrary: acc) simp_all

lemma analisaRecintos_Inl:
  "geraLote animal quantidade = Inl erro \<Longrightarrow>
   analisaRecintos zoo animal quantidade = (Erro erro, zoo)"
  by (simp add: analisaRecintos_def geraSaidaErro_def)

lemma analisaRecintos_Inr:
  "geraLote animal quantidade = Inr novoLote \<Longrightarrow>
   analisaRecintos zoo animal quantidade =
     (if filter (\<lambda>r. consegueAcomodarLote r novoLote) (listaRecintos zoo) \<noteq> []
      then RecintosViaveis
             (map (\<lambda>r. \<lparr>numeroRecinto = ident r,
                         espacoLivreLinha = getEspacoDisponivel r animal - tamanhoLote novoLote,
                         totalLinha = tamanhoTotal r\<rparr>)
                  (filter (\<lambda>r. consegueAcomodarLote r novoLote) (listaRecintos zoo)))
      else Erro msgNaoHaRecintoViavel, zoo)"
  by (simp add: analisaRecintos_def forEachRecinto_eq geraSaidaErro_def geraSaidaEsperada_def
      comp_def)

section \<open>The seed scenario: three monkeys\<close>

text \<open>
  Claim C1, as the code has it. On the seed dataset \<open>analisaRecintos("MACACO", 3)\<close>
  returns three viable enclosures, in registration order: enclosure 1 with free space 4
  of 10, enclosure 2 with free space 2 of 5 (a monkey accepts the forest) and
  enclosure 3 with free space 1 of 7 (one unit goes to the mixed occupancy). Enclosure 4
  is rejected because no habitat of the monkey is there; enclosure 5 is rejected
  although the batch is comfortable in it, because it holds a carnivore.
\<close>
theorem seed_tres_macacos:
  "analisaNovoZoo (JSString ''MACACO'') (JSNumber 3) =
     Some (RecintosViaveis
       [\<lparr>numeroRecinto = 1, espacoLivreLinha = 4, totalLinha = 10\<rparr>,
        \<lparr>numeroRecinto = 2, espacoLivreLinha = 2, totalLinha = 5\<rparr>,
        \<lparr>numeroRecinto = 3, espacoLivreLinha = 1, totalLinha = 7\<rparr>])
   \<and> \<not> verificaBiomaAdequado (Macaco 3) [''rio'']
   \<and> \<not> consegueAcomodarLote (novoRecinto 4 [''rio''] 8 None) (Macaco 3)
   \<and> estaConfortavel (Macaco 3) (novoRecinto 5 [''savana''] 9 (Some [Leao 1]))
   \<and> flagContemCarnivoros (novoRecinto 5 [''savana''] 9 (Some [Leao 1]))
   \<and> \<not> consegueAcomodarLote (novoRecinto 5 [''savana''] 9 (Some [Leao 1])) (Macaco 3)"
  by (simp add: analisaNovoZoo_def novoRecintosZoo_eq analisaRecintos_Inr geraLote_MACACO
      novoRecinto_def adicionaLoteAnimais_def recinto_defs lote_defs)

theorem seed_tres_macacos_witness:
  "analisaNovoZoo (JSString ''MACACO'') (JSNumber 3) \<noteq> None
   \<and> analisaNovoZoo (JSString ''MACACO'') (JSNumber 3) \<noteq> Some (Erro msgNaoHaRecintoViavel)"
  using seed_tres_macacos by simp

text \<open>
  Claim C1 as it is stated fails: the free space reported for enclosure 1 is 4, not 6,
  the free space reported for enclosure 3 is 1, not 2, and enclosure 2 is viable, its
  forest being a habitat of the monkey.
\<close>
theorem seed_tres_macacos_counterexample:
  "analisaNovoZoo (JSString ''MACACO'') (JSNumber 3) =
     Some (RecintosViaveis
       [\<lparr>numeroRecinto = 1, espacoLivreLinha = 4, totalLinha = 10\<rparr>,
        \<lparr>numeroRecinto = 2, espacoLivreLinha = 2, totalLinha = 5\<rparr>,
        \<lparr>numeroRecinto = 3, espacoLivreLinha = 1, totalLinha = 7\<rparr>])
   \<and> \<lparr>numeroRecinto = 1, espacoLivreLinha = 6, totalLinha = 10\<rparr> \<notin>
       set [\<lparr>numeroRecinto = 1, espacoLivreLinha = 4, totalLinha = 10\<rparr>,
            \<lparr>numeroRecinto = 2, espacoLivreLinha = 2, totalLinha = 5\<rparr>,
            \<lparr>numeroRecinto = 3, espacoLivreLinha = 1, totalLinha = 7\<rparr>]
   \<and> \<lparr>numeroRecinto = 3, espacoLivreLinha = 2, totalLinha = 7\<rparr> \<notin>
       set [\<lparr>numeroRecinto = 1, espacoLivreLinha = 4, totalLinha = 10\<rparr>,
            \<lparr>numeroRecinto = 2, espacoLivreLinha = 2, totalLinha = 5\<rparr>,
            \<lparr>numeroRecinto = 3, espacoLivreLinha = 1, totalLinha = 7\<rparr>]
   \<and> verificaBiomaAdequado (Macaco 3) [''floresta'']
   \<and> consegueAcomodarLote (novoRecinto 2 [''floresta''] 5 None) (Macaco 3)"
  by (simp add: analisaNovoZoo_def novoRecintosZoo_eq analisaRecintos_Inr geraLote_MACACO
      novoRecinto_vazio recinto_defs Macaco_def)

section \<open>Invalid counts\<close>

lemma switchEspecie_nao_quantidade: "switchEspecie nome q \<noteq> Inl msgQuantidadeInvalida"
  by (simp add: switchEspecie_def mensagens_distintas)

lemma geraLote_quantidade_iff:
  "geraLote animal quantidade = Inl msgQuantidadeInvalida \<longleftrightarrow>
     typeof animal = TString \<and>
     (typeof quantidade \<noteq> TNumber \<or> (\<exists>n. quantidade = JSNumber n \<and> n \<le> 0))"
  by (cases animal; cases quantidade)
     (simp_all add: geraLote_def mensagens_distintas switchEspecie_nao_quantidade)

text \<open>
  Claim C2, as the code has it. The analysis answers \<open>Quantidade invalida\<close> exactly
  when the species argument is a string and the count is not of type number or is a
  number that is at most 0. A positive number that is not an integer is accepted as a
  count, and a species argument that is not a string gives the other message whatever
  the count is.
\<close>
theorem quantidade_invalida_iff:
  "fst (analisaRecintos zoo animal quantidade) = Erro msgQuantidadeInvalida \<longleftrightarrow>
     typeof animal = TString \<and>
     (typeof quantidade \<noteq> TNumber \<or> (\<exists>n. quantidade = JSNumber n \<and> n \<le> 0))"
proof (cases "geraLote animal quantidade")
  case (Inl erro)
  then have "fst (analisaRecintos zoo animal quantidade) = Erro erro"
    by (simp add: analisaRecintos_Inl)
  with Inl show ?thesis
    using geraLote_quantidade_iff [of animal quantidade] by auto
next
  case (Inr novoLote)
  then have "fst (analisaRecintos zoo animal quantidade) \<noteq> Erro msgQuantidadeInvalida"
    by (simp add: analisaRecintos_Inr mensagens_distintas)
  with Inr show ?thesis
    using geraLote_quantidade_iff [of animal quantidade] by auto
qed

theorem quantidade_invalida_witness:
  "fst (analisaRecintos \<lparr>listaRecintos = []\<rparr> (JSString ''CACHORRO'') (JSNumber 0)) =
     Erro msgQuantidadeInvalida
   \<and> fst (analisaRecintos \<lparr>listaRecintos = []\<rparr> (JSString ''MACACO'') JSUndefined) =
     Erro msgQuantidadeInvalida
   \<and> fst (analisaRecintos \<lparr>listaRecintos = []\<rparr> (JSString ''MACACO'') (JSNumber (5 / 2)))
       \<noteq> Erro msgQuantidadeInvalida
   \<and> fst (analisaRecintos \<lparr>listaRecintos = []\<rparr> (JSNumber 7) (JSNumber 0))
       \<noteq> Erro msgQuantidadeInvalida"
  using
    quantidade_invalida_iff
      [of "\<lparr>listaRecintos = []\<rparr>" "JSString ''CACHORRO''" "JSNumber 0"]
    quantidade_invalida_iff
      [of "\<lparr>listaRecintos = []\<rparr>" "JSString ''MACACO''" JSUndefined]
    quantidade_invalida_iff
      [of "\<lparr>listaRecintos = []\<rparr>" "JSString ''MACACO''" "JSNumber (5 / 2)"]
    quantidade_invalida_iff
      [of "\<lparr>listaRecintos = []\<rparr>" "JSNumber 7" "JSNumber 0"]
  by simp

text \<open>
  Claim C2 as it is stated fails on the count 2.5, which is not an integer: a fresh zoo
  answers with three viable enclosures.
\<close>
theorem quantidade_fracionaria_counterexample:
  "analisaNovoZoo (JSString ''MACACO'') (JSNumber (5 / 2)) =
     Some (RecintosViaveis
       [\<lparr>numeroRecinto = 1, espacoLivreLinha = 9 / 2, totalLinha = 10\<rparr>,
        \<lparr>numeroRecinto = 2, espacoLivreLinha = 5 / 2, totalLinha = 5\<rparr>,
        \<lparr>numeroRecinto = 3, espacoLivreLinha = 3 / 2, totalLinha = 7\<rparr>])
   \<and> (5 / 2 :: rat) \<notin> \<int>"
proof -
  have "(5 / 2 :: rat) \<notin> \<int>"
  proof
    assume "(5 / 2 :: rat) \<in> \<int>"
    then obtain k :: int where k: "(5 / 2 :: rat) = of_int k"
      by (auto elim: Ints_cases)
    then have "(of_int (2 * k) :: rat) = of_int 5" by simp
    then have "2 * k = 5" by (simp only: of_int_eq_iff)
    then show False by presburger
  qed
  then show ?thesis
    by (simp add: analisaNovoZoo_def novoRecintosZoo_eq analisaRecintos_Inr geraLote_MACACO
      recinto_defs Macaco_def)
qed

section \<open>Free space\<close>

lemma fcard_1_iff: "fcard S = 1 \<longleftrightarrow> (\<exists>x. S = {|x|})"
proof
  assume "fcard S = 1"
  then have "card (fset S) = Suc 0"
    by (simp add: fcard.rep_eq)
  then obtain x where "fset S = {x}"
    by (auto simp: card_Suc_eq)
  then have "fset S = fset {|x|}"
    by simp
  then have "S = {|x|}"
    by (simp only: fset_inject)
  then show "\<exists>x. S = {|x|}" ..
next
  assume "\<exists>x. S = {|x|}"
  then show "fcard S = 1"
    by (auto simp: fcard_finsert_if fcard_fempty)
qed

lemma has_singleton: "has {|x|} e \<longleftrightarrow> e = JSString x"
  by (cases e) auto

lemma fcard_1_singleton:
  "fcard (listaEspecies r) = 1 \<Longrightarrow> \<exists>x. listaEspecies r = {|x|}"
  using fcard_1_iff by blast

lemma temOutrasEspecies_singleton:
  "fcard (listaEspecies r) = 1 \<Longrightarrow> listaEspecies r = {|x|} \<Longrightarrow>
   temOutrasEspecies r e \<longleftrightarrow> e \<noteq> JSString x"
  by (simp add: temOutrasEspecies_def has_singleton)

lemma outrasEspeciesPresentes_singleton:
  "outrasEspeciesPresentes_spec {|x|} e \<longleftrightarrow> e \<noteq> JSString x"
  unfolding outrasEspeciesPresentes_spec_def by (auto simp: fcard_finsert_if fcard_fempty)

lemma fcard_nao_1:
  "fcard S \<noteq> 1 \<Longrightarrow> \<not> (\<exists>x |\<in>| S. S = {|x|} \<and> JSString x \<noteq> e)"
  using fcard_1_iff [of S] by blast

lemma outrasEspecies_refina:
  "temOutrasEspecies r e = outrasEspeciesPresentes_spec (listaEspecies r) e"
proof (cases "fcard (listaEspecies r) = 1")
  case True
  then obtain x where x: "listaEspecies r = {|x|}"
    using fcard_1_singleton by blast
  with True have "temOutrasEspecies r e \<longleftrightarrow> e \<noteq> JSString x"
    by (rule temOutrasEspecies_singleton)
  moreover have "outrasEspeciesPresentes_spec (listaEspecies r) e \<longleftrightarrow> e \<noteq> JSString x"
    by (simp only: x outrasEspeciesPresentes_singleton)
  ultimately show ?thesis by simp
next
  case False
  then have "\<not> (\<exists>x |\<in>| listaEspecies r. listaEspecies r = {|x|} \<and> JSString x \<noteq> e)"
    by (rule fcard_nao_1)
  with False show ?thesis
    unfolding temOutrasEspecies_def outrasEspeciesPresentes_spec_def by blast
qed

text \<open>
  Claim C4. For every enclosure and every species identifier, \<open>getEspacoDisponivel\<close>
  is the total capacity minus the occupied space, minus one more unit exactly when the
  enclosure hosts a species other than the given one; it hosts another species iff the
  set of resident species has more than one member, or has exactly one member and that
  member differs from the given identifier.
\<close>
theorem espaco_disponivel_refina:
  "getEspacoDisponivel r e = freeSpace_spec r e
   \<and> (temOutrasEspecies r e \<longleftrightarrow> outrasEspeciesPresentes_spec (listaEspecies r) e)"
  unfolding getEspacoDisponivel_def freeSpace_spec_def Let_def
  by (simp add: outrasEspecies_refina)

theorem espaco_disponivel_witness:
  "freeSpace_spec (novoRecinto 3 [''savana'', ''rio''] 7 (Some [Gazela 1]))
     (JSString ''MACACO'') = 4
   \<and> outrasEspeciesPresentes_spec
       (listaEspecies (novoRecinto 3 [''savana'', ''rio''] 7 (Some [Gazela 1])))
       (JSString ''MACACO'')
   \<and> freeSpace_spec (novoRecinto 3 [''savana'', ''rio''] 7 (Some [Gazela 1]))
     (JSString ''GAZELA'') = 5
   \<and> \<not> outrasEspeciesPresentes_spec
       (listaEspecies (novoRecinto 3 [''savana'', ''rio''] 7 (Some [Gazela 1])))
       (JSString ''GAZELA'')"
proof -
  let ?r = "novoRecinto 3 [''savana'', ''rio''] 7 (Some [Gazela 1])"
  have codigo:
    "getEspacoDisponivel ?r (JSString ''MACACO'') = 4"
    "temOutrasEspecies ?r (JSString ''MACACO'')"
    "getEspacoDisponivel ?r (JSString ''GAZELA'') = 5"
    "\<not> temOutrasEspecies ?r (JSString ''GAZELA'')"
    by (simp_all add: novoRecinto_def adicionaLoteAnimais_def recinto_defs lote_defs)
  show ?thesis
    using codigo espaco_disponivel_refina [of ?r "JSString ''MACACO''"]
      espaco_disponivel_refina [of ?r "JSString ''GAZELA''"]
    by simp
qed

section \<open>The comfort predicates\<close>

lemma verificaBiomaLoop_iff:
  "verificaBiomaLoop bs biomasR \<longleftrightarrow> (\<exists>b \<in> set bs. b \<in> set biomasR)"
  by (induction bs) (simp_all add: array_includes_def)

lemma verificaBiomaAdequado_iff:
  "verificaBiomaAdequado lote biomasR \<longleftrightarrow> (\<exists>b \<in> set (biomas lote). b \<in> set biomasR)"
  by (simp add: verificaBiomaAdequado_def verificaBiomaLoop_iff)

lemma estaConfortavel_sem_override:
  "classe lote \<noteq> ClasseMacaco \<Longrightarrow> classe lote \<noteq> ClasseHipopotamo \<Longrightarrow>
   estaConfortavel lote r = estaConfortavel_LoteAnimal lote r"
  by (cases "classe lote") (simp_all add: estaConfortavel_def)

text \<open>
  Claim C5. For a batch of a class that does not override \<open>estaConfortavel\<close> (every
  class except \<open>Macaco\<close> and \<open>Hipopotamo\<close>) and every enclosure, the batch is
  comfortable iff one of its habitats is a habitat of the enclosure and the free space
  of the enclosure for its species is at least its unit size times its count.
\<close>
theorem conforto_padrao:
  assumes "classe lote \<noteq> ClasseMacaco" and "classe lote \<noteq> ClasseHipopotamo"
  shows "estaConfortavel lote r \<longleftrightarrow>
           (\<exists>b \<in> set (biomas lote). b \<in> set (biomasRecinto r)) \<and>
           getEspacoDisponivel r (JSString (especie lote)) \<ge> tamanho lote * qtdeLote lote"
proof -
  have "estaConfortavel lote r = estaConfortavel_LoteAnimal lote r"
    using assms by (rule estaConfortavel_sem_override)
  also have "\<dots> \<longleftrightarrow> verificaBiomaAdequado lote (biomasRecinto r) \<and>
      verificaEspacoSuficente lote (getEspacoDisponivel r (JSString (especie lote)))"
    by (simp add: estaConfortavel_LoteAnimal_def Let_def)
  also have "\<dots> \<longleftrightarrow> (\<exists>b \<in> set (biomas lote). b \<in> set (biomasRecinto r)) \<and>
      getEspacoDisponivel r (JSString (especie lote)) \<ge> tamanho lote * qtdeLote lote"
    by (simp add: verificaBiomaAdequado_iff verificaEspacoSuficente_def mult.commute)
  finally show ?thesis .
qed

theorem conforto_padrao_witness:
  "classe (Gazela 2) \<noteq> ClasseMacaco \<and> classe (Gazela 2) \<noteq> ClasseHipopotamo
   \<and> estaConfortavel (Gazela 2) (novoRecinto 3 [''savana'', ''rio''] 7 (Some [Gazela 1]))
   \<and> \<not> estaConfortavel (Gazela 3) (novoRecinto 3 [''savana'', ''rio''] 7 (Some [Gazela 1]))
   \<and> \<not> estaConfortavel (Gazela 2) (novoRecinto 4 [''rio''] 8 None)"
proof -
  have c: "classe (Gazela q) \<noteq> ClasseMacaco" "classe (Gazela q) \<noteq> ClasseHipopotamo" for q
    by (simp_all add: Gazela_def)
  have e3: "getEspacoDisponivel (novoRecinto 3 [''savana'', ''rio''] 7 (Some [Gazela 1]))
      (JSString ''GAZELA'') = 5"
    by (simp add: novoRecinto_def adicionaLoteAnimais_def recinto_defs lote_defs)
  have b3: "biomasRecinto (novoRecinto 3 [''savana'', ''rio''] 7 (Some [Gazela 1]))
      = [''savana'', ''rio'']"
    by (simp add: novoRecinto_def adicionaLoteAnimais_def recinto_defs lote_defs)
  have g: "especie (Gazela q) = ''GAZELA''" "biomas (Gazela q) = [''savana'']"
    "tamanho (Gazela q) = 2" "qtdeLote (Gazela q) = q" for q
    by (simp_all add: Gazela_def)
  show ?thesis
    using conforto_padrao [OF c, of 2 "novoRecinto 3 [''savana'', ''rio''] 7 (Some [Gazela 1])"]
      conforto_padrao [OF c, of 3 "novoRecinto 3 [''savana'', ''rio''] 7 (Some [Gazela 1])"]
      conforto_padrao [OF c, of 2 "novoRecinto 4 [''rio''] 8 None"]
    by (simp add: c g e3 b3 novoRecinto_vazio)
qed

text \<open>
  Claim C6. A batch of class \<open>Macaco\<close> with count exactly 1 is not comfortable in,
  and is not admitted by, an enclosure whose free space for its species equals the total
  capacity. In particular one monkey is rejected by an empty forest enclosure of
  capacity 5, although habitat and space both fit, and the analysis of a zoo with that
  enclosure alone finds no viable enclosure.
\<close>
theorem macaco_sozinho:
  "(classe lote = ClasseMacaco \<and> qtdeLote lote = 1 \<and>
      getEspacoDisponivel r (JSString (especie lote)) = tamanhoTotal r
      \<longrightarrow> \<not> estaConfortavel lote r \<and> \<not> consegueAcomodarLote r lote)
   \<and> verificaBiomaAdequado (Macaco 1) (biomasRecinto (novoRecinto 2 [''floresta''] 5 None))
   \<and> verificaEspacoSuficente (Macaco 1)
        (getEspacoDisponivel (novoRecinto 2 [''floresta''] 5 None) (JSString ''MACACO''))
   \<and> \<not> estaConfortavel (Macaco 1) (novoRecinto 2 [''floresta''] 5 None)
   \<and> fst (analisaRecintos \<lparr>listaRecintos = [novoRecinto 2 [''floresta''] 5 None]\<rparr>
            (JSString ''MACACO'') (JSNumber 1)) = Erro msgNaoHaRecintoViavel"
proof -
  have geral: "\<not> estaConfortavel lote r \<and> \<not> consegueAcomodarLote r lote"
    if "classe lote = ClasseMacaco" "qtdeLote lote = 1"
      "getEspacoDisponivel r (JSString (especie lote)) = tamanhoTotal r"
  proof -
    have "\<not> estaConfortavel lote r"
      using that by (simp add: estaConfortavel_def estaConfortavel_Macaco_def Let_def)
    then show ?thesis
      by (simp add: consegueAcomodarLote_def)
  qed
  have cenario:
    "verificaBiomaAdequado (Macaco 1) (biomasRecinto (novoRecinto 2 [''floresta''] 5 None))"
    "verificaEspacoSuficente (Macaco 1)
        (getEspacoDisponivel (novoRecinto 2 [''floresta''] 5 None) (JSString ''MACACO''))"
    "\<not> estaConfortavel (Macaco 1) (novoRecinto 2 [''floresta''] 5 None)"
    by (simp_all add: novoRecinto_vazio recinto_defs Macaco_def)
  have "fst (analisaRecintos \<lparr>listaRecintos = [novoRecinto 2 [''floresta''] 5 None]\<rparr>
            (JSString ''MACACO'') (JSNumber 1)) = Erro msgNaoHaRecintoViavel"
    using cenario(3)
    by (simp add: analisaRecintos_Inr geraLote_MACACO consegueAcomodarLote_def)
  with geral cenario show ?thesis by blast
qed

theorem macaco_sozinho_witness:
  "classe (Macaco 1) = ClasseMacaco \<and> qtdeLote (Macaco 1) = 1
   \<and> getEspacoDisponivel (novoRecinto 4 [''savana''] 8 None) (JSString (especie (Macaco 1)))
       = tamanhoTotal (novoRecinto 4 [''savana''] 8 None)
   \<and> \<not> estaConfortavel (Macaco 1) (novoRecinto 4 [''savana''] 8 None)
   \<and> \<not> consegueAcomodarLote (novoRecinto 4 [''savana''] 8 None) (Macaco 1)"
proof -
  have h: "classe (Macaco 1) = ClasseMacaco \<and> qtdeLote (Macaco 1) = 1
     \<and> getEspacoDisponivel (novoRecinto 4 [''savana''] 8 None) (JSString (especie (Macaco 1)))
       = tamanhoTotal (novoRecinto 4 [''savana''] 8 None)"
    by (simp add: novoRecinto_vazio recinto_defs Macaco_def)
  with macaco_sozinho [of "Macaco 1" "novoRecinto 4 [''savana''] 8 None"] show ?thesis
    by blast
qed

section \<open>Admission rules\<close>

lemma Hipopotamo_campos:
  "classe (Hipopotamo q) = ClasseHipopotamo" "especie (Hipopotamo q) = ''HIPOPOTAMO''"
  "tamanho (Hipopotamo q) = 4" "biomas (Hipopotamo q) = [''savana'', ''rio'']"
  "qtdeLote (Hipopotamo q) = q"
  by (simp_all add: Hipopotamo_def)

text \<open>
  Claim C7. Mixed company with a hippopotamus needs both the \<open>savana\<close> and the
  \<open>rio\<close> habitat, in both directions: a batch of hippopotamuses is comfortable in
  an enclosure that hosts other species only if the habitats of the enclosure include
  both, and a batch of any other species is admitted to an enclosure that hosts
  hippopotamuses only if the habitats of the enclosure include both.
\<close>
theorem hipopotamo_savana_e_rio:
  "(estaConfortavel (Hipopotamo q) r \<and> temOutrasEspecies r (JSString ''HIPOPOTAMO'')
      \<longrightarrow> array_includes (biomasRecinto r) ''savana'' \<and> array_includes (biomasRecinto r) ''rio'')
   \<and> (consegueAcomodarLote r lote \<and> has (listaEspecies r) (JSString ''HIPOPOTAMO'') \<and>
       especie lote \<noteq> ''HIPOPOTAMO''
      \<longrightarrow> array_includes (biomasRecinto r) ''savana'' \<and> array_includes (biomasRecinto r) ''rio'')"
proof (intro conjI impI)
  assume h: "estaConfortavel (Hipopotamo q) r \<and> temOutrasEspecies r (JSString ''HIPOPOTAMO'')"
  then have "estaConfortavel_Hipopotamo (Hipopotamo q) r"
    by (simp add: estaConfortavel_def Hipopotamo_campos)
  with h have t: "toleraOutrasEspecies (biomasRecinto r)"
    by (simp add: estaConfortavel_Hipopotamo_def Let_def Hipopotamo_campos split: if_splits)
  from t show "array_includes (biomasRecinto r) ''savana''"
    by (simp add: toleraOutrasEspecies_def)
  from t show "array_includes (biomasRecinto r) ''rio''"
    by (simp add: toleraOutrasEspecies_def)
next
  assume h: "consegueAcomodarLote r lote \<and> has (listaEspecies r) (JSString ''HIPOPOTAMO'') \<and>
       especie lote \<noteq> ''HIPOPOTAMO''"
  then have both: "\<not> (\<not> array_includes (biomasRecinto r) ''rio'' \<or>
               \<not> array_includes (biomasRecinto r) ''savana'')"
    unfolding consegueAcomodarLote_def by (simp split: if_splits)
  from both show "array_includes (biomasRecinto r) ''savana''" by simp
  from both show "array_includes (biomasRecinto r) ''rio''" by simp
qed

theorem hipopotamo_savana_e_rio_witness:
  "estaConfortavel (Hipopotamo 1) (novoRecinto 3 [''savana'', ''rio''] 7 (Some [Gazela 1]))
   \<and> temOutrasEspecies (novoRecinto 3 [''savana'', ''rio''] 7 (Some [Gazela 1]))
       (JSString ''HIPOPOTAMO'')
   \<and> consegueAcomodarLote (novoRecinto 3 [''savana'', ''rio''] 7 (Some [Hipopotamo 1])) (Macaco 2)
   \<and> has (listaEspecies (novoRecinto 3 [''savana'', ''rio''] 7 (Some [Hipopotamo 1])))
       (JSString ''HIPOPOTAMO'')
   \<and> especie (Macaco 2) \<noteq> ''HIPOPOTAMO''
   \<and> array_includes (biomasRecinto (novoRecinto 3 [''savana'', ''rio''] 7 (Some [Gazela 1])))
        ''savana''
   \<and> array_includes (biomasRecinto (novoRecinto 3 [''savana'', ''rio''] 7 (Some [Hipopotamo 1])))
        ''rio''"
proof -
  have a: "estaConfortavel (Hipopotamo 1) (novoRecinto 3 [''savana'', ''rio''] 7 (Some [Gazela 1]))
     \<and> temOutrasEspecies (novoRecinto 3 [''savana'', ''rio''] 7 (Some [Gazela 1]))
       (JSString ''HIPOPOTAMO'')"
    by (simp add: novoRecinto_def adicionaLoteAnimais_def recinto_defs lote_defs)
  have b: "consegueAcomodarLote (novoRecinto 3 [''savana'', ''rio''] 7 (Some [Hipopotamo 1])) (Macaco 2)
     \<and> has (listaEspecies (novoRecinto 3 [''savana'', ''rio''] 7 (Some [Hipopotamo 1])))
       (JSString ''HIPOPOTAMO'')
     \<and> especie (Macaco 2) \<noteq> ''HIPOPOTAMO''"
    by (simp add: novoRecinto_def adicionaLoteAnimais_def recinto_defs lote_defs)
  from a b
    hipopotamo_savana_e_rio [of 1 "novoRecinto 3 [''savana'', ''rio''] 7 (Some [Gazela 1])"]
    hipopotamo_savana_e_rio [of _ "novoRecinto 3 [''savana'', ''rio''] 7 (Some [Hipopotamo 1])"
      "Macaco 2"]
  show ?thesis by blast
qed

text \<open>
  Claim C8. \<open>consegueAcomodarLote\<close> rejects a batch when the carnivore flag of the
  enclosure is set and the species of the batch is not among the resident species; it
  also rejects a batch of a carnivorous species when the flag is not set and the
  enclosure has at least one resident species.
\<close>
theorem carnivoros_exclusivos:
  "(flagContemCarnivoros r \<and> \<not> has (listaEspecies r) (JSString (especie lote))
      \<longrightarrow> \<not> consegueAcomodarLote r lote)
   \<and> (isCarnivoro lote \<and> \<not> flagContemCarnivoros r \<and> fcard (listaEspecies r) \<ge> 1
      \<longrightarrow> \<not> consegueAcomodarLote r lote)"
  unfolding consegueAcomodarLote_def by auto

theorem carnivoros_exclusivos_witness:
  "flagContemCarnivoros (novoRecinto 5 [''savana''] 9 (Some [Leao 1]))
   \<and> \<not> has (listaEspecies (novoRecinto 5 [''savana''] 9 (Some [Leao 1])))
         (JSString (especie (Macaco 3)))
   \<and> \<not> consegueAcomodarLote (novoRecinto 5 [''savana''] 9 (Some [Leao 1])) (Macaco 3)
   \<and> isCarnivoro (Leao 1)
   \<and> \<not> flagContemCarnivoros (novoRecinto 3 [''savana'', ''rio''] 7 (Some [Gazela 1]))
   \<and> fcard (listaEspecies (novoRecinto 3 [''savana'', ''rio''] 7 (Some [Gazela 1]))) \<ge> 1
   \<and> \<not> consegueAcomodarLote (novoRecinto 3 [''savana'', ''rio''] 7 (Some [Gazela 1])) (Leao 1)"
proof -
  have a: "flagContemCarnivoros (novoRecinto 5 [''savana''] 9 (Some [Leao 1]))
     \<and> \<not> has (listaEspecies (novoRecinto 5 [''savana''] 9 (Some [Leao 1])))
         (JSString (especie (Macaco 3)))"
    by (simp add: novoRecinto_def adicionaLoteAnimais_def recinto_defs lote_defs)
  have b: "isCarnivoro (Leao 1)
     \<and> \<not> flagContemCarnivoros (novoRecinto 3 [''savana'', ''rio''] 7 (Some [Gazela 1]))
     \<and> fcard (listaEspecies (novoRecinto 3 [''savana'', ''rio''] 7 (Some [Gazela 1]))) \<ge> 1"
    by (simp add: novoRecinto_def adicionaLoteAnimais_def recinto_defs lote_defs)
  from a b
    carnivoros_exclusivos [of "novoRecinto 5 [''savana''] 9 (Some [Leao 1])" "Macaco 3"]
    carnivoros_exclusivos [of "novoRecinto 3 [''savana'', ''rio''] 7 (Some [Gazela 1])" "Leao 1"]
  show ?thesis by blast
qed

section \<open>The analysis leaves the zoo as it is\<close>

lemma forEachRecinto_recintos: "fst (forEachRecinto novoLote animal rs acc) = rs"
  by (simp add: forEachRecinto_eq)

text \<open>
  Claim C9. For every zoo, species argument and count argument, the zoo after
  \<open>analisaRecintos\<close> is the zoo before it: occupied space, resident batches,
  species set and carnivore flag of every enclosure are unchanged. A second call with
  the same arguments therefore returns the same result as the first.
\<close>
theorem analise_nao_altera:
  "snd (analisaRecintos zoo animal quantidade) = zoo
   \<and> fst (analisaRecintos (snd (analisaRecintos zoo animal quantidade)) animal quantidade)
       = fst (analisaRecintos zoo animal quantidade)"
proof -
  have "snd (analisaRecintos zoo animal quantidade) = zoo"
  proof (cases "geraLote animal quantidade")
    case (Inl erro)
    then show ?thesis by (simp add: analisaRecintos_def)
  next
    case (Inr novoLote)
    have "fst (forEachRecinto novoLote animal (listaRecintos zoo) []) = listaRecintos zoo"
      by (rule forEachRecinto_recintos)
    then have "zoo\<lparr>listaRecintos := fst (forEachRecinto novoLote animal (listaRecintos zoo) [])\<rparr>
        = zoo"
      by simp
    with Inr show ?thesis
      by (simp add: analisaRecintos_def Let_def case_prod_unfold)
  qed
  then show ?thesis by simp
qed

theorem analise_nao_altera_witness:
  "map_option (\<lambda>zoo. snd (analisaRecintos zoo (JSString ''MACACO'') (JSNumber 3))) novoRecintosZoo
     = novoRecintosZoo
   \<and> snd (analisaRecintos \<lparr>listaRecintos = [novoRecinto 4 [''rio''] 8 None]\<rparr>
        (JSString ''CROCODILO'') (JSNumber 1))
     = \<lparr>listaRecintos = [novoRecinto 4 [''rio''] 8 None]\<rparr>"
  using analise_nao_altera [of _ "JSString ''MACACO''" "JSNumber 3"]
    analise_nao_altera [of "\<lparr>listaRecintos = [novoRecinto 4 [''rio''] 8 None]\<rparr>"
      "JSString ''CROCODILO''" "JSNumber 1"]
  by (simp add: option.map_ident)

section \<open>The order of the validations\<close>

lemma geraLote_nao_string:
  "typeof animal \<noteq> TString \<Longrightarrow> geraLote animal quantidade = Inl msgAnimalInvalido"
  by (cases animal) (simp_all add: geraLote_def)

text \<open>
  Claim C10. For every species argument that is not a string the analysis answers
  \<open>Animal invalido\<close> whatever the count is. For every species argument that is a
  string and every count that is not of type number or is a number at most 0, it
  answers \<open>Quantidade invalida\<close>, a different message, also when the name is
  unknown: the count is checked before the name is resolved.
\<close>
theorem ordem_das_validacoes:
  "(typeof animal \<noteq> TString \<longrightarrow>
      fst (analisaRecintos zoo animal quantidade) = Erro msgAnimalInvalido)
   \<and> (typeof quantidade \<noteq> TNumber \<or> (\<exists>n. quantidade = JSNumber n \<and> n \<le> 0) \<longrightarrow>
      fst (analisaRecintos zoo (JSString nome) quantidade) = Erro msgQuantidadeInvalida
      \<and> Erro msgQuantidadeInvalida \<noteq> Erro msgAnimalInvalido)"
proof (intro conjI impI)
  assume "typeof animal \<noteq> TString"
  then have "geraLote animal quantidade = Inl msgAnimalInvalido"
    by (rule geraLote_nao_string)
  then show "fst (analisaRecintos zoo animal quantidade) = Erro msgAnimalInvalido"
    by (simp add: analisaRecintos_Inl)
next
  assume "typeof quantidade \<noteq> TNumber \<or> (\<exists>n. quantidade = JSNumber n \<and> n \<le> 0)"
  then have "geraLote (JSString nome) quantidade = Inl msgQuantidadeInvalida"
    using geraLote_quantidade_iff [of "JSString nome" quantidade] by simp
  then show "fst (analisaRecintos zoo (JSString nome) quantidade) = Erro msgQuantidadeInvalida"
    by (simp add: analisaRecintos_Inl)
next
  show "Erro msgQuantidadeInvalida \<noteq> Erro msgAnimalInvalido"
    using mensagens_distintas(1) by simp
qed

theorem ordem_das_validacoes_witness:
  "typeof (JSNumber 7) \<noteq> TString
   \<and> fst (analisaRecintos \<lparr>listaRecintos = []\<rparr> (JSNumber 7) (JSNumber 0)) = Erro msgAnimalInvalido
   \<and> typeof (JSString ''2'') \<noteq> TNumber
   \<and> fst (analisaRecintos \<lparr>listaRecintos = []\<rparr> (JSString ''CACHORRO'') (JSString ''2''))
       = Erro msgQuantidadeInvalida
   \<and> fst (analisaRecintos \<lparr>listaRecintos = []\<rparr> (JSString ''CACHORRO'') (JSNumber (- 1)))
       = Erro msgQuantidadeInvalida
   \<and> toUpperCase ''CACHORRO'' \<notin> {''LEAO'', ''LEOPARDO'', ''CROCODILO'', ''MACACO'', ''GAZELA'',
        ''HIPOPOTAMO''}"
  using ordem_das_validacoes [of "JSNumber 7" "\<lparr>listaRecintos = []\<rparr>" "JSNumber 0"]
    ordem_das_validacoes [of _ "\<lparr>listaRecintos = []\<rparr>" "JSString ''2''" "''CACHORRO''"]
    ordem_das_validacoes [of _ "\<lparr>listaRecintos = []\<rparr>" "JSNumber (- 1)" "''CACHORRO''"]
  by (simp add: toUpperCase_nomes)

section \<open>Occupied space and viability\<close>

lemma temOutrasEspecies_ocupado:
  "temOutrasEspecies (r\<lparr>tamanhoOcupado := oc\<rparr>) e = temOutrasEspecies r e"
  by (simp add: temOutrasEspecies_def)

lemma getEspacoDisponivel_ocupado:
  "getEspacoDisponivel (r\<lparr>tamanhoOcupado := oc\<rparr>) e =
     getEspacoDisponivel r e - (oc - tamanhoOcupado r)"
  by (simp add: getEspacoDisponivel_def temOutrasEspecies_ocupado Let_def)

lemma estaConfortavel_LoteAnimal_mono:
  assumes "tamanhoOcupado r \<le> oc"
    and "estaConfortavel_LoteAnimal lote (r\<lparr>tamanhoOcupado := oc\<rparr>)"
  shows "estaConfortavel_LoteAnimal lote r"
  using assms
  by (simp add: estaConfortavel_LoteAnimal_def Let_def getEspacoDisponivel_ocupado
      verificaEspacoSuficente_def split: if_splits)

lemma estaConfortavel_Hipopotamo_mono:
  assumes "tamanhoOcupado r \<le> oc"
    and "estaConfortavel_Hipopotamo lote (r\<lparr>tamanhoOcupado := oc\<rparr>)"
  shows "estaConfortavel_Hipopotamo lote r"
  using assms
  by (simp add: estaConfortavel_Hipopotamo_def Let_def getEspacoDisponivel_ocupado
      temOutrasEspecies_ocupado verificaEspacoSuficente_def split: if_splits)

lemma estaConfortavel_Macaco_mono:
  assumes "tamanhoOcupado r \<le> oc"
    and "\<not> (qtdeLote lote = 1 \<and>
            getEspacoDisponivel r (JSString (especie lote)) = tamanhoTotal r)"
    and "estaConfortavel_Macaco lote (r\<lparr>tamanhoOcupado := oc\<rparr>)"
  shows "estaConfortavel_Macaco lote r"
  using assms
  by (simp add: estaConfortavel_Macaco_def Let_def getEspacoDisponivel_ocupado
      verificaEspacoSuficente_def split: if_splits)

lemma estaConfortavel_mono:
  assumes "tamanhoOcupado r \<le> oc"
    and "\<not> (classe lote = ClasseMacaco \<and> qtdeLote lote = 1 \<and>
            getEspacoDisponivel r (JSString (especie lote)) = tamanhoTotal r)"
    and "estaConfortavel lote (r\<lparr>tamanhoOcupado := oc\<rparr>)"
  shows "estaConfortavel lote r"
proof (cases "classe lote")
  case ClasseMacaco
  with assms show ?thesis
    by (simp add: estaConfortavel_def estaConfortavel_Macaco_mono [of r oc lote])
next
  case ClasseHipopotamo
  with assms show ?thesis
    by (simp add: estaConfortavel_def estaConfortavel_Hipopotamo_mono [of r oc lote])
qed (use assms in \<open>simp_all add: estaConfortavel_def estaConfortavel_LoteAnimal_mono [of r oc lote]\<close>)

lemma consegueAcomodarLote_mono:
  assumes "tamanhoOcupado r \<le> oc"
    and "\<not> (classe lote = ClasseMacaco \<and> qtdeLote lote = 1 \<and>
            getEspacoDisponivel r (JSString (especie lote)) = tamanhoTotal r)"
    and "consegueAcomodarLote (r\<lparr>tamanhoOcupado := oc\<rparr>) lote"
  shows "consegueAcomodarLote r lote"
proof -
  from assms(3) have "estaConfortavel lote (r\<lparr>tamanhoOcupado := oc\<rparr>)"
    unfolding consegueAcomodarLote_def by (simp split: if_splits)
  with assms(1,2) have "estaConfortavel lote r"
    by (rule estaConfortavel_mono)
  with assms(3) show ?thesis
    unfolding consegueAcomodarLote_def by (auto simp: fcard_fempty split: if_splits)
qed

lemma switchEspecie_Macaco:
  "switchEspecie nome q = Inr lote \<Longrightarrow> classe lote = ClasseMacaco \<Longrightarrow> lote = Macaco q"
  by (auto simp: switchEspecie_def lote_defs split: if_splits)

lemma geraLote_Macaco_um:
  assumes "geraLote animal quantidade = Inr lote"
    and "classe lote = ClasseMacaco" and "qtdeLote lote = 1"
  shows "lote = Macaco 1"
proof -
  from assms(1) obtain nome q where "switchEspecie (toUpperCase nome) q = Inr lote"
    by (auto simp: geraLote_def split: jsvalue.splits if_splits)
  with assms(2) have "lote = Macaco q"
    using switchEspecie_Macaco by blast
  with assms(3) show ?thesis
    by (simp add: Macaco_def)
qed

lemma linhas_viaveis:
  assumes "geraLote animal quantidade = Inr lote"
  shows "(\<exists>ls. fst (analisaRecintos zoo animal quantidade) = RecintosViaveis ls \<and>
              n \<in> numeroRecinto ` set ls)
         \<longleftrightarrow> (\<exists>x \<in> set (listaRecintos zoo). consegueAcomodarLote x lote \<and> ident x = n)"
  using assms by (auto simp: analisaRecintos_Inr filter_empty_conv image_iff)

text \<open>
  Claim C3, as the code has it. In a zoo whose enclosures have distinct identifiers,
  raising the occupied space of one enclosure and changing nothing else can only remove
  that enclosure from the viable list of an analysis: if the enclosure is listed after
  the increase, it was listed before. The one exception is a single monkey facing an
  enclosure whose free space for monkeys equals its total capacity before the increase:
  a lone monkey refuses such an enclosure, and accepts it once the free space has
  dropped below the capacity.
\<close>
theorem monotonia_ocupacao:
  assumes ids: "distinct (map ident (listaRecintos zoo))"
    and i: "i < length (listaRecintos zoo)"
    and r: "r = listaRecintos zoo ! i"
    and oc: "tamanhoOcupado r \<le> ocupado"
    and zoo': "zoo' = zoo\<lparr>listaRecintos := (listaRecintos zoo)[i := r\<lparr>tamanhoOcupado := ocupado\<rparr>]\<rparr>"
    and exc: "geraLote animal quantidade \<noteq> Inr (Macaco 1) \<or>
              getEspacoDisponivel r (JSString ''MACACO'') \<noteq> tamanhoTotal r"
    and depois: "fst (analisaRecintos zoo' animal quantidade) = RecintosViaveis depois"
    and viavel: "ident r \<in> numeroRecinto ` set depois"
  shows "\<exists>antes. fst (analisaRecintos zoo animal quantidade) = RecintosViaveis antes \<and>
                 ident r \<in> numeroRecinto ` set antes"
proof (cases "geraLote animal quantidade")
  case (Inl erro)
  then have "fst (analisaRecintos zoo' animal quantidade) = Erro erro"
    by (simp add: analisaRecintos_Inl)
  with depois show ?thesis by simp
next
  case (Inr lote)
  let ?r' = "r\<lparr>tamanhoOcupado := ocupado\<rparr>"
  let ?rs = "listaRecintos zoo"
  have "\<exists>x \<in> set (listaRecintos zoo'). consegueAcomodarLote x lote \<and> ident x = ident r"
    using linhas_viaveis [OF Inr, of zoo' "ident r"] depois viavel by blast
  then obtain x where x: "x \<in> set (?rs[i := ?r'])" "consegueAcomodarLote x lote"
      "ident x = ident r"
    by (auto simp: zoo')
  from x(1) obtain j where j: "j < length ?rs" "x = ?rs[i := ?r'] ! j"
    by (auto simp: in_set_conv_nth)
  have "j = i"
  proof (rule ccontr)
    assume "j \<noteq> i"
    with j have "x = ?rs ! j" by simp
    with x(3) r have "map ident ?rs ! j = map ident ?rs ! i"
      using i j(1) by simp
    with ids i j(1) have "j = i"
      using nth_eq_iff_index_eq [of "map ident (listaRecintos zoo)" j i] by simp
    with \<open>j \<noteq> i\<close> show False by simp
  qed
  with j i have "x = ?r'" by simp
  with x(2) have viavel': "consegueAcomodarLote ?r' lote" by simp
  have "\<not> (classe lote = ClasseMacaco \<and> qtdeLote lote = 1 \<and>
            getEspacoDisponivel r (JSString (especie lote)) = tamanhoTotal r)"
  proof
    assume h: "classe lote = ClasseMacaco \<and> qtdeLote lote = 1 \<and>
            getEspacoDisponivel r (JSString (especie lote)) = tamanhoTotal r"
    with Inr have "lote = Macaco 1"
      using geraLote_Macaco_um by blast
    with h Inr exc show False
      by (simp add: Macaco_def)
  qed
  with oc have "consegueAcomodarLote r lote"
    using viavel' by (rule consegueAcomodarLote_mono)
  moreover have "r \<in> set ?rs"
    using i r by simp
  ultimately show ?thesis
    using linhas_viaveis [OF Inr, of zoo "ident r"] by blast
qed

theorem monotonia_ocupacao_witness:
  "distinct (map ident [novoRecinto 2 [''floresta''] 5 None])
   \<and> tamanhoOcupado (novoRecinto 2 [''floresta''] 5 None) \<le> 1
   \<and> geraLote (JSString ''MACACO'') (JSNumber 3) \<noteq> Inr (Macaco 1)
   \<and> fst (analisaRecintos
        \<lparr>listaRecintos = [(novoRecinto 2 [''floresta''] 5 None)\<lparr>tamanhoOcupado := 1\<rparr>]\<rparr>
        (JSString ''MACACO'') (JSNumber 3)) =
       RecintosViaveis [\<lparr>numeroRecinto = 2, espacoLivreLinha = 1, totalLinha = 5\<rparr>]
   \<and> (\<exists>antes. fst (analisaRecintos \<lparr>listaRecintos = [novoRecinto 2 [''floresta''] 5 None]\<rparr>
                  (JSString ''MACACO'') (JSNumber 3)) = RecintosViaveis antes \<and>
                ident (novoRecinto 2 [''floresta''] 5 None) \<in> numeroRecinto ` set antes)"
proof -
  let ?r = "novoRecinto 2 [''floresta''] 5 None"
  let ?zoo = "\<lparr>listaRecintos = [?r]\<rparr>"
  let ?zoo' = "\<lparr>listaRecintos = [?r\<lparr>tamanhoOcupado := 1\<rparr>]\<rparr>"
  have ids: "distinct (map ident (listaRecintos ?zoo))" by simp
  have i: "0 < length (listaRecintos ?zoo)" by simp
  have r: "?r = listaRecintos ?zoo ! 0" by simp
  have oc: "tamanhoOcupado ?r \<le> 1" by (simp add: novoRecinto_vazio)
  have zoo': "?zoo' = ?zoo\<lparr>listaRecintos := (listaRecintos ?zoo)[0 := ?r\<lparr>tamanhoOcupado := 1\<rparr>]\<rparr>"
    by simp
  have lote: "geraLote (JSString ''MACACO'') (JSNumber 3) \<noteq> Inr (Macaco 1)"
    by (simp add: geraLote_MACACO Macaco_def)
  then have exc: "geraLote (JSString ''MACACO'') (JSNumber 3) \<noteq> Inr (Macaco 1) \<or>
      getEspacoDisponivel ?r (JSString ''MACACO'') \<noteq> tamanhoTotal ?r" ..
  have depois: "fst (analisaRecintos ?zoo' (JSString ''MACACO'') (JSNumber 3)) =
      RecintosViaveis [\<lparr>numeroRecinto = 2, espacoLivreLinha = 1, totalLinha = 5\<rparr>]"
    by (simp add: analisaRecintos_Inr geraLote_MACACO novoRecinto_vazio recinto_defs Macaco_def)
  have viavel: "ident ?r \<in> numeroRecinto `
      set [\<lparr>numeroRecinto = 2, espacoLivreLinha = 1, totalLinha = 5\<rparr>]"
    by (simp add: novoRecinto_vazio)
  from monotonia_ocupacao [OF ids i r oc zoo' exc depois viavel] ids oc lote depois
  show ?thesis by simp
qed

text \<open>
  Claim C3 as it is stated fails for one monkey and enclosure 2 of the seed dataset:
  the enclosure is not viable while its occupied space is 0, and is viable once the
  occupied space is 1, everything else unchanged.
\<close>
theorem monotonia_ocupacao_counterexample:
  "analisaNovoZoo (JSString ''MACACO'') (JSNumber 1) =
     Some (RecintosViaveis
       [\<lparr>numeroRecinto = 1, espacoLivreLinha = 6, totalLinha = 10\<rparr>,
        \<lparr>numeroRecinto = 3, espacoLivreLinha = 3, totalLinha = 7\<rparr>])
   \<and> tamanhoOcupado (novoRecinto 2 [''floresta''] 5 None) < 1
   \<and> fst (analisaRecintos
        \<lparr>listaRecintos =
           [novoRecinto 1 [''savana''] 10 (Some [Macaco 3]),
            (novoRecinto 2 [''floresta''] 5 None)\<lparr>tamanhoOcupado := 1\<rparr>,
            novoRecinto 3 [''savana'', ''rio''] 7 (Some [Gazela 1]),
            novoRecinto 4 [''rio''] 8 None,
            novoRecinto 5 [''savana''] 9 (Some [Leao 1])]\<rparr>
        (JSString ''MACACO'') (JSNumber 1)) =
     RecintosViaveis
       [\<lparr>numeroRecinto = 1, espacoLivreLinha = 6, totalLinha = 10\<rparr>,
        \<lparr>numeroRecinto = 2, espacoLivreLinha = 3, totalLinha = 5\<rparr>,
        \<lparr>numeroRecinto = 3, espacoLivreLinha = 3, totalLinha = 7\<rparr>]"
  by (simp add: analisaNovoZoo_def novoRecintosZoo_eq analisaRecintos_Inr geraLote_MACACO
      novoRecinto_def adicionaLoteAnimais_def recinto_defs lote_defs)

text \<open>
  The same happens along the program's own path: once \<open>adicionaLoteAnimais\<close> has put
  two monkeys into the empty enclosure 2, the enclosure admits the single monkey that
  it refused before.
\<close>

lemma macaco_sozinho_apos_admissao:
  "\<not> consegueAcomodarLote (novoRecinto 2 [''floresta''] 5 None) (Macaco 1)
   \<and> consegueAcomodarLote
       (adicionaLoteAnimais (novoRecinto 2 [''floresta''] 5 None) (Macaco 2)) (Macaco 1)
   \<and> tamanhoOcupado (adicionaLoteAnimais (novoRecinto 2 [''floresta''] 5 None) (Macaco 2)) = 2"
  by (simp add: novoRecinto_vazio adicionaLoteAnimais_def recinto_defs Macaco_def)

end
